theory Spec2Isabelle
  imports Main
begin

section \<open>otapreopt\_chroot: the calls the program makes and the world it runs in\<close>

text \<open>
  The program of \<^verbatim>\<open>cmds/installd/otapreopt_chroot.cpp\<close> is a straight sequence of
  calls into the kernel, into libselinux, into apexd and into \<^verbatim>\<open>otapreopt_utils.h\<close>,
  each followed by a test of the call's result and, on failure, by \<^verbatim>\<open>exit(n)\<close>.
  The model threads a state through the program: the world outside the process (an
  abstract type \<open>'w\<close>), and the trace of every call made so far together with what it
  returned. The world's answers are parameters (the record \<open>os\<close>), so a theorem about
  the program holds whatever the kernel, apexd and the launched tool answer.
\<close>

subsection \<open>Calls and events\<close>

text \<open>Mount flags of \<^verbatim>\<open>sys/mount.h\<close>; a flag word built with \<^verbatim>\<open>|\<close> is the set of its flags.\<close>

datatype mflag = MS_RDONLY | MS_NOSUID | MS_NODEV | MS_NOEXEC | MS_BIND | MS_REC | MS_PRIVATE

text \<open>
  The calls that return an \<^verbatim>\<open>int\<close>. \<open>Mount source target fstype flags\<close> is
  \<^verbatim>\<open>mount(source, target, fstype, flags, nullptr)\<close> (the data argument is
  \<^verbatim>\<open>nullptr\<close> at every call site; \<open>None\<close> is a \<^verbatim>\<open>nullptr\<close> file system type);
  \<open>Unshare\<close> is \<^verbatim>\<open>unshare(CLONE_NEWNS)\<close>, \<open>Restorecon p\<close> is
  \<^verbatim>\<open>selinux_android_restorecon(p, 0)\<close>, \<open>Access p\<close> is \<^verbatim>\<open>access(p, F_OK)\<close>.
\<close>

datatype call =
    Close int
  | Unshare
  | Mount string string "string option" "mflag set"
  | Restorecon string
  | Chmod string nat
  | Chown string nat nat
  | Chdir string
  | Chroot string
  | Access string

text \<open>\<^verbatim>\<open>apex::ApexFile\<close> (only \<^verbatim>\<open>GetPath()\<close> is used) and \<^verbatim>\<open>apex::Status\<close>.\<close>

record ApexFile =
  GetPath :: string

record Status =
  Ok :: bool
  ErrorMessage :: string

datatype severity = INFO | ERROR

text \<open>
  One entry of the trace: a call with its result, a log line (\<open>PLog\<close> is
  \<^verbatim>\<open>PLOG\<close>, which appends the text of \<^verbatim>\<open>errno\<close>, not modelled), the three
  apexd calls, and \<^verbatim>\<open>ValidateTargetSlotSuffix\<close> and \<^verbatim>\<open>Exec\<close> with what they
  returned.
\<close>

datatype event =
    Sys call int
  | Log severity string
  | PLog severity string
  | ScanPackagesDirAndActivate string
  | GetActivePackages "ApexFile list"
  | DeactivatePackage string Status
  | ValidateSuffix string bool
  | ExecEv "string list" bool string

text \<open>
  The world. \<open>os_ValidateTargetSlotSuffix\<close> and \<open>os_Exec\<close> stand for the functions
  of \<^verbatim>\<open>otapreopt_utils.h\<close>, \<open>os_kApexPackageSystemDir\<close> for the constant of apexd;
  none of them is part of the file modelled here.
\<close>

record 'w os =
  os_sys :: "call \<Rightarrow> 'w \<Rightarrow> int \<times> 'w"
  os_log :: "severity \<Rightarrow> string \<Rightarrow> 'w \<Rightarrow> 'w"
  os_scanPackagesDirAndActivate :: "string \<Rightarrow> 'w \<Rightarrow> 'w"
  os_getActivePackages :: "'w \<Rightarrow> ApexFile list"
  os_deactivatePackage :: "string \<Rightarrow> 'w \<Rightarrow> Status \<times> 'w"
  os_Exec :: "string list \<Rightarrow> 'w \<Rightarrow> (bool \<times> string) \<times> 'w"
  os_ValidateTargetSlotSuffix :: "string \<Rightarrow> bool"
  os_kApexPackageSystemDir :: string

record 'w st =
  world :: 'w
  trace :: "event list"

text \<open>How the process ends: \<^verbatim>\<open>exit(n)\<close>, or \<^verbatim>\<open>return n\<close> from \<^verbatim>\<open>otapreopt_chroot\<close>.\<close>

datatype outcome = Exit int | Return int

subsection \<open>Performing a call\<close>

definition syscall :: "'w os \<Rightarrow> call \<Rightarrow> 'w st \<Rightarrow> int \<times> 'w st" where
  "syscall os c s =
     (case os_sys os c (world s) of
        (r, w') \<Rightarrow> (r, \<lparr>world = w', trace = trace s @ [Sys c r]\<rparr>))"

definition LOG :: "'w os \<Rightarrow> severity \<Rightarrow> string \<Rightarrow> 'w st \<Rightarrow> 'w st" where
  "LOG os sev msg s = \<lparr>world = os_log os sev msg (world s), trace = trace s @ [Log sev msg]\<rparr>"

definition PLOG :: "'w os \<Rightarrow> severity \<Rightarrow> string \<Rightarrow> 'w st \<Rightarrow> 'w st" where
  "PLOG os sev msg s = \<lparr>world = os_log os sev msg (world s), trace = trace s @ [PLog sev msg]\<rparr>"

text \<open>\<^verbatim>\<open>ValidateTargetSlotSuffix(input)\<close>: a pure predicate; the world stays as it is.\<close>

definition ValidateTargetSlotSuffix :: "'w os \<Rightarrow> string \<Rightarrow> 'w st \<Rightarrow> bool \<times> 'w st" where
  "ValidateTargetSlotSuffix os input s =
     (let valid = os_ValidateTargetSlotSuffix os input
      in (valid, \<lparr>world = world s, trace = trace s @ [ValidateSuffix input valid]\<rparr>))"

subsection \<open>Reading an int from a string\<close>

text \<open>
  \<^verbatim>\<open>std::istringstream stream(descriptor_string); stream >> fd;\<close> with the stream's
  default flags (\<^verbatim>\<open>skipws\<close>, \<^verbatim>\<open>dec\<close>) in the classic locale: leading white space is
  skipped, then an optional sign and the longest run of decimal digits are read, and
  whatever follows stays unread. The extraction fails (\<^verbatim>\<open>stream.fail()\<close>) when no
  digit was read or when the value does not fit a 32-bit \<^verbatim>\<open>int\<close>. \<open>None\<close> is the
  failed extraction.
\<close>

definition isspace :: "char \<Rightarrow> bool" where
  "isspace c = (c \<in> {CHR '' '', CHR 0x09, CHR 0x0A, CHR 0x0B, CHR 0x0C, CHR 0x0D})"

definition isdigit :: "char \<Rightarrow> bool" where
  "isdigit c = (c \<in> set ''0123456789'')"

definition digit_val :: "char \<Rightarrow> int" where
  "digit_val c = int (of_char c) - 48"

definition decimal :: "string \<Rightarrow> int" where
  "decimal ds = foldl (\<lambda>a c. 10 * a + digit_val c) 0 ds"

definition INT_MIN :: int where
  "INT_MIN = - (2 ^ 31)"

definition INT_MAX :: int where
  "INT_MAX = 2 ^ 31 - 1"

definition istream_read_int :: "string \<Rightarrow> int option" where
  "istream_read_int str =
     (let s1 = dropWhile isspace str;
          neg = (s1 \<noteq> [] \<and> hd s1 = CHR ''-'');
          s2 = (if s1 \<noteq> [] \<and> (hd s1 = CHR ''-'' \<or> hd s1 = CHR ''+'') then tl s1 else s1);
          ds = takeWhile isdigit s2;
          v = (if neg then - decimal ds else decimal ds)
      in if ds = [] then None
         else if v < INT_MIN \<or> INT_MAX < v then None
         else Some v)"

subsection \<open>The helper functions of the file\<close>

text \<open>\<^verbatim>\<open>static void CloseDescriptor(int fd)\<close>: the result of \<^verbatim>\<open>close\<close> is dropped.\<close>

definition CloseDescriptor :: "'w os \<Rightarrow> int \<Rightarrow> 'w st \<Rightarrow> 'w st" where
  "CloseDescriptor os fd s = (if fd \<ge> 0 then snd (syscall os (Close fd) s) else s)"

text \<open>\<^verbatim>\<open>static void CloseDescriptor(const char* descriptor_string)\<close>.\<close>

definition CloseDescriptor_str :: "'w os \<Rightarrow> string \<Rightarrow> 'w st \<Rightarrow> 'w st" where
  "CloseDescriptor_str os descriptor_string s =
     (case istream_read_int descriptor_string of
        None \<Rightarrow> s
      | Some fd \<Rightarrow> CloseDescriptor os fd s)"

definition ActivateApexPackages :: "'w os \<Rightarrow> 'w st \<Rightarrow> ApexFile list \<times> 'w st" where
  "ActivateApexPackages os s =
     (let dir = os_kApexPackageSystemDir os;
          w1 = os_scanPackagesDirAndActivate os dir (world s);
          pkgs = os_getActivePackages os w1
      in (pkgs, \<lparr>world = w1,
                 trace = trace s @ [ScanPackagesDirAndActivate dir, GetActivePackages pkgs]\<rparr>))"

text \<open>
  \<^verbatim>\<open>DeactivateApexPackages\<close>: the range-for over the vector; a failed deactivation is
  logged and the loop goes on.
\<close>

definition deactivate_one :: "'w os \<Rightarrow> ApexFile \<Rightarrow> 'w st \<Rightarrow> 'w st" where
  "deactivate_one os apex_file s =
     (let package_path = GetPath apex_file in
      case os_deactivatePackage os package_path (world s) of
        (status, w') \<Rightarrow>
          (let s' = \<lparr>world = w', trace = trace s @ [DeactivatePackage package_path status]\<rparr>
           in if \<not> Ok status
              then LOG os ERROR (''Failed to deactivate '' @ package_path @ '': '' @
                                 ErrorMessage status) s'
              else s'))"

fun DeactivateApexPackages :: "'w os \<Rightarrow> ApexFile list \<Rightarrow> 'w st \<Rightarrow> 'w st" where
  "DeactivateApexPackages os [] s = s"
| "DeactivateApexPackages os (apex_file # rest) s =
     DeactivateApexPackages os rest (deactivate_one os apex_file s)"

text \<open>\<^verbatim>\<open>BindMount\<close>: fails exactly when \<^verbatim>\<open>mount\<close> returns \<open>-1\<close>.\<close>

definition BindMount :: "'w os \<Rightarrow> string \<Rightarrow> string \<Rightarrow> bool \<Rightarrow> 'w st \<Rightarrow> bool \<times> 'w st" where
  "BindMount os source mount_point recursive s =
     (let mountflags = (if recursive then {MS_BIND} \<union> {MS_REC} else {MS_BIND}) in
      case syscall os (Mount source mount_point None mountflags) s of
        (r, s') \<Rightarrow>
          if r = - 1
          then (False, PLOG os ERROR (''Could not bind-mount '' @ source @ '' to '' @ mount_point) s')
          else (True, s'))"

definition kBionicLibFileNames :: "string list" where
  "kBionicLibFileNames = [''libc.so'', ''libm.so'', ''libdl.so'']"

text \<open>The range-for of \<^verbatim>\<open>BindMountBionic\<close> over the library names.\<close>

fun BindMountBionic_libs ::
  "'w os \<Rightarrow> string \<Rightarrow> string \<Rightarrow> string list \<Rightarrow> 'w st \<Rightarrow> bool \<times> 'w st" where
  "BindMountBionic_libs os lib_dir_source lib_mount_dir [] s = (True, s)"
| "BindMountBionic_libs os lib_dir_source lib_mount_dir (libname # rest) s =
     (let mount_point = lib_mount_dir @ libname;
          source = lib_dir_source @ libname
      in case BindMount os source mount_point False s of
           (False, s') \<Rightarrow> (False, s')
         | (True, s') \<Rightarrow> BindMountBionic_libs os lib_dir_source lib_mount_dir rest s')"

definition BindMountBionic ::
  "'w os \<Rightarrow> string \<Rightarrow> string \<Rightarrow> string \<Rightarrow> string \<Rightarrow> 'w st \<Rightarrow> bool \<times> 'w st" where
  "BindMountBionic os linker_source lib_dir_source linker_mount_point lib_mount_dir s =
     (case syscall os (Access linker_source) s of
        (a, s1) \<Rightarrow>
          if a \<noteq> 0
          then (True, PLOG os INFO (linker_source @ '' does not exist. Skipping mounting Bionic there.'') s1)
          else (case BindMount os linker_source linker_mount_point False s1 of
                  (False, s2) \<Rightarrow> (False, s2)
                | (True, s2) \<Rightarrow>
                    BindMountBionic_libs os lib_dir_source lib_mount_dir kBionicLibFileNames s2))"

subsection \<open>Configuration\<close>

definition kLinkerMountPoint :: string where
  "kLinkerMountPoint = ''/bionic/bin/linker''"

definition kRuntimeLinkerPath :: string where
  "kRuntimeLinkerPath = ''/apex/com.android.runtime/bin/linker''"

definition kBionicLibsMountPointDir :: string where
  "kBionicLibsMountPointDir = ''/bionic/lib/''"

definition kRuntimeBionicLibsDir :: string where
  "kRuntimeBionicLibsDir = ''/apex/com.android.runtime/lib/bionic/''"

definition kLinkerMountPoint64 :: string where
  "kLinkerMountPoint64 = ''/bionic/bin/linker64''"

definition kRuntimeLinkerPath64 :: string where
  "kRuntimeLinkerPath64 = ''/apex/com.android.runtime/bin/linker64''"

definition kBionicLibsMountPointDir64 :: string where
  "kBionicLibsMountPointDir64 = ''/bionic/lib64/''"

definition kRuntimeBionicLibsDir64 :: string where
  "kRuntimeBionicLibsDir64 = ''/apex/com.android.runtime/lib64/bionic/''"

definition kBindMounts :: "string list" where
  "kBindMounts = [''/data'', ''/dev'', ''/proc'', ''/sys'']"

definition kPostinstallApexDir :: string where
  "kPostinstallApexDir = ''/postinstall/apex''"

text \<open>The mode \<^verbatim>\<open>0755\<close> (octal) of the \<^verbatim>\<open>chmod\<close>.\<close>

definition mode_0755 :: nat where
  "mode_0755 = 7 * 64 + 5 * 8 + 5"

definition STDIN_FILENO :: int where "STDIN_FILENO = 0"
definition STDOUT_FILENO :: int where "STDOUT_FILENO = 1"
definition STDERR_FILENO :: int where "STDERR_FILENO = 2"

subsection \<open>The loops of \<^verbatim>\<open>otapreopt_chroot\<close>\<close>

text \<open>
  The loop over \<^verbatim>\<open>kBindMounts\<close>; \<open>Some 202\<close> is the \<^verbatim>\<open>exit(202)\<close> inside it,
  \<open>None\<close> the loop running to its end. In \<open>otapreopt_chroot\<close> below, a result
  \<open>Some code\<close> of the loop ends the process with that code.
\<close>

fun bind_mount_loop :: "'w os \<Rightarrow> string list \<Rightarrow> 'w st \<Rightarrow> int option \<times> 'w st" where
  "bind_mount_loop os [] s = (None, s)"
| "bind_mount_loop os (dir # rest) s =
     (let trg = ''/postinstall'' @ dir in
      case syscall os (Mount dir trg None {MS_BIND}) s of
        (r, s') \<Rightarrow>
          if r \<noteq> 0
          then (Some 202, PLOG os ERROR (''Failed to bind-mount '' @ dir) s')
          else bind_mount_loop os rest s')"

text \<open>
  \<^verbatim>\<open>for (size_t i = 2; i < static_cast<size_t>(argc); ++i) cmd.push_back(arg[i]);\<close>
\<close>

function push_args :: "string list \<Rightarrow> nat \<Rightarrow> nat \<Rightarrow> string list \<Rightarrow> string list" where
  "push_args arg n i cmd = (if i < n then push_args arg n (Suc i) (cmd @ [arg ! i]) else cmd)"
  by pat_completeness auto
termination
  by (relation "measure (\<lambda>(arg, n, i, cmd). n - i)") auto

declare push_args.simps [simp del]

definition do_Exec :: "'w os \<Rightarrow> string list \<Rightarrow> 'w st \<Rightarrow> (bool \<times> string) \<times> 'w st" where
  "do_Exec os cmd s =
     (case os_Exec os cmd (world s) of
        ((ok, error_msg), w') \<Rightarrow>
          ((ok, error_msg), \<lparr>world = w', trace = trace s @ [ExecEv cmd ok error_msg]\<rparr>))"

subsection \<open>\<^verbatim>\<open>otapreopt_chroot\<close> and \<^verbatim>\<open>main\<close>\<close>

definition otapreopt_chroot :: "'w os \<Rightarrow> int \<Rightarrow> string list \<Rightarrow> 'w st \<Rightarrow> outcome \<times> 'w st" where
  "otapreopt_chroot os argc arg s0 =
    (if argc < 3 then (Exit 208, PLOG os ERROR ''Not enough arguments.'' s0)
     else
     let s = CloseDescriptor os STDIN_FILENO s0;
         s = CloseDescriptor os STDOUT_FILENO s;
         s = CloseDescriptor os STDERR_FILENO s;
         s = CloseDescriptor_str os (arg ! 1) s;
         (r, s) = syscall os Unshare s
     in
     if r \<noteq> 0 then (Exit 200, PLOG os ERROR ''Failed to unshare() for otapreopt.'' s)
     else
     let (r, s) = syscall os (Mount [] ''/postinstall'' None {MS_PRIVATE}) s in
     if r \<noteq> 0 then (Exit 201, PLOG os ERROR ''Failed to mount private.'' s)
     else
     let (exited, s) = bind_mount_loop os kBindMounts s in
     case exited of Some code \<Rightarrow> (Exit code, s) | None \<Rightarrow>
     let (valid, s) = ValidateTargetSlotSuffix os (arg ! 2) s in
     if \<not> valid
     then (Exit 207, LOG os ERROR (''Target slot suffix not legal: '' @ arg ! 2) s)
     else
     let vendor_partition = ''/dev/block/by-name/vendor'' @ arg ! 2;
         (vendor_result, s) =
            syscall os (Mount vendor_partition ''/postinstall/vendor'' (Some ''ext4'')
                          {MS_RDONLY}) s;
         product_partition = ''/dev/block/by-name/product'' @ arg ! 2;
         (product_result, s) =
            syscall os (Mount product_partition ''/postinstall/product'' (Some ''ext4'')
                          {MS_RDONLY}) s;
         (r, s) = syscall os (Mount ''tmpfs'' kPostinstallApexDir (Some ''tmpfs'')
                                {MS_NODEV, MS_NOEXEC, MS_NOSUID}) s
     in
     if r \<noteq> 0
     then (Exit 209, PLOG os ERROR (''Failed to mount tmpfs in '' @ kPostinstallApexDir) s)
     else
     let (r, s) = syscall os (Restorecon kPostinstallApexDir) s in
     if r < 0
     then (Exit 214, PLOG os ERROR (''Failed to restorecon '' @ kPostinstallApexDir) s)
     else
     let (r, s) = syscall os (Chmod kPostinstallApexDir mode_0755) s in
     if r \<noteq> 0
     then (Exit 210, PLOG os ERROR (''Failed to chmod '' @ kPostinstallApexDir @ '' to 0755'') s)
     else
     let (r, s) = syscall os (Chown kPostinstallApexDir 0 0) s in
     if r \<noteq> 0
     then (Exit 211,
           PLOG os ERROR (''Failed to chown '' @ kPostinstallApexDir @ '' to root:root'') s)
     else
     let (r, s) = syscall os (Chdir ''/postinstall'') s in
     if r \<noteq> 0 then (Exit 203, PLOG os ERROR ''Unable to chdir into /postinstall.'' s)
     else
     let (r, s) = syscall os (Chroot ''.'') s in
     if r \<noteq> 0 then (Exit 204, PLOG os ERROR ''Failed to chroot'' s)
     else
     let (r, s) = syscall os (Chdir ''/'') s in
     if r \<noteq> 0 then (Exit 205, PLOG os ERROR ''Unable to chdir into /.'' s)
     else
     let (active_packages, s) = ActivateApexPackages os s;
         (mounted, s) = BindMountBionic os kRuntimeLinkerPath kRuntimeBionicLibsDir
                          kLinkerMountPoint kBionicLibsMountPointDir s
     in
     if \<not> mounted
     then
       (let s = LOG os ERROR
                  ''Failed to mount 32-bit Bionic artifacts from the Runtime APEX.'' s;
            s = DeactivateApexPackages os active_packages s
        in (Exit 215, s))
     else
     let (mounted, s) = BindMountBionic os kRuntimeLinkerPath64 kRuntimeBionicLibsDir64
                          kLinkerMountPoint64 kBionicLibsMountPointDir64 s
     in
     if \<not> mounted
     then
       (let s = LOG os ERROR
                  ''Failed to mount 64-bit Bionic artifacts from the Runtime APEX.'' s;
            s = DeactivateApexPackages os active_packages s
        in (Exit 216, s))
     else
     let cmd = push_args arg (nat argc) 2 [''/system/bin/otapreopt''];
         ((exec_result, error_msg), s) = do_Exec os cmd s;
         s = (if \<not> exec_result
              then LOG os ERROR (''Running otapreopt failed: '' @ error_msg) s
              else s);
         s = DeactivateApexPackages os active_packages s
     in
     if \<not> exec_result then (Exit 213, s) else (Return 0, s))"

text \<open>
  \<^verbatim>\<open>main\<close> hands the process's argument vector on; \<^verbatim>\<open>argc\<close> is its length. The
  process starts with an empty trace in the world \<open>w\<close>.
\<close>

definition main :: "'w os \<Rightarrow> string list \<Rightarrow> 'w \<Rightarrow> outcome \<times> 'w st" where
  "main os argv w = otapreopt_chroot os (int (length argv)) argv \<lparr>world = w, trace = []\<rparr>"

section \<open>Reading a trace\<close>

text \<open>
  The properties below are stated on what a run leaves in its trace. \<open>proj f t\<close> keeps,
  in the order of the trace, what the classifier \<open>f\<close> extracts from each event.
\<close>

definition proj :: "(event \<Rightarrow> 'a list) \<Rightarrow> event list \<Rightarrow> 'a list" where
  "proj f t = concat (map f t)"

text \<open>The calls made (with and without their results), and the descriptors closed.\<close>

fun sys_event :: "event \<Rightarrow> (call \<times> int) list" where
  "sys_event (Sys c r) = [(c, r)]"
| "sys_event _ = []"

fun call_of :: "event \<Rightarrow> call list" where
  "call_of (Sys c r) = [c]"
| "call_of _ = []"

fun close_fd :: "event \<Rightarrow> int list" where
  "close_fd (Sys (Close fd) r) = [fd]"
| "close_fd _ = []"

fun unshare_result :: "event \<Rightarrow> int list" where
  "unshare_result (Sys Unshare r) = [r]"
| "unshare_result _ = []"


fun active_set :: "event \<Rightarrow> ApexFile list list" where
  "active_set (GetActivePackages pkgs) = [pkgs]"
| "active_set _ = []"

fun exec_event :: "event \<Rightarrow> (string list \<times> bool) list" where
  "exec_event (ExecEv cmd ok msg) = [(cmd, ok)]"
| "exec_event _ = []"


abbreviation activated :: "event list \<Rightarrow> ApexFile list list" where
  "activated t \<equiv> proj active_set t"

abbreviation launched :: "event list \<Rightarrow> (string list \<times> bool) list" where
  "launched t \<equiv> proj exec_event t"

abbreviation closed :: "event list \<Rightarrow> int list" where
  "closed t \<equiv> proj close_fd t"

text \<open>
  The launch and the deactivations, in the order of the trace: \<open>None\<close> for a launch of
  the tool, \<open>Some p\<close> for a deactivation of the package at \<open>p\<close>.
\<close>

fun launch_or_deact :: "event \<Rightarrow> string option list" where
  "launch_or_deact (ExecEv cmd ok msg) = [None]"
| "launch_or_deact (DeactivatePackage p st) = [Some p]"
| "launch_or_deact _ = []"

section \<open>Concrete worlds\<close>

text \<open>
  Worlds to run the program in: every call \<open>c\<close> returns \<open>ret c\<close>, apexd reports one
  active package whose deactivation succeeds, the validator accepts the suffixes
  \<open>_a\<close> and \<open>_b\<close>, and the launch of the tool succeeds or not as \<open>exec_ok\<close> says.
\<close>

definition test_os :: "(call \<Rightarrow> int) \<Rightarrow> bool \<Rightarrow> unit os" where
  "test_os ret exec_ok =
     \<lparr>os_sys = (\<lambda>c w. (ret c, w)),
      os_log = (\<lambda>sev msg w. w),
      os_scanPackagesDirAndActivate = (\<lambda>dir w. w),
      os_getActivePackages = (\<lambda>w. [\<lparr>GetPath = ''/system/apex/com.android.runtime.apex''\<rparr>]),
      os_deactivatePackage = (\<lambda>p w. (\<lparr>Ok = True, ErrorMessage = []\<rparr>, w)),
      os_Exec = (\<lambda>cmd w. ((exec_ok, if exec_ok then [] else ''execv failed''), w)),
      os_ValidateTargetSlotSuffix = (\<lambda>input. input = ''_a'' \<or> input = ''_b''),
      os_kApexPackageSystemDir = ''/system/apex''\<rparr>"

definition failing :: "call \<Rightarrow> call \<Rightarrow> int" where
  "failing bad c = (if c = bad then - 1 else 0)"

definition os_ok :: "unit os" where
  "os_ok = test_os (\<lambda>c. 0) True"


definition os_unshare_fails :: "unit os" where
  "os_unshare_fails = test_os (failing Unshare) True"

definition os_bind_proc_fails :: "unit os" where
  "os_bind_proc_fails = test_os (failing (Mount ''/proc'' ''/postinstall/proc'' None {MS_BIND})) True"

definition os_chmod_fails :: "unit os" where
  "os_chmod_fails = test_os (failing (Chmod kPostinstallApexDir mode_0755)) True"


definition os_libm64_fails :: "unit os" where
  "os_libm64_fails =
     test_os (failing (Mount (kRuntimeBionicLibsDir64 @ ''libm.so'')
                         (kBionicLibsMountPointDir64 @ ''libm.so'') None {MS_BIND})) True"

definition os_no_linker32 :: "unit os" where
  "os_no_linker32 = test_os (failing (Access kRuntimeLinkerPath)) True"

definition argv_ok :: "string list" where
  "argv_ok = [''otapreopt_chroot'', ''5'', ''_b'', ''dexopt'', ''9'']"

definition argv_bad_slot :: "string list" where
  "argv_bad_slot = [''otapreopt_chroot'', ''5'', ''/../sda'', ''dexopt'']"

definition init :: "unit st" where
  "init = \<lparr>world = (), trace = []\<rparr>"

section \<open>What each function adds to the trace\<close>

lemma proj_simps [simp]:
  "proj f [] = []" "proj f (e # t) = f e @ proj f t" "proj f (t @ u) = proj f t @ proj f u"
  by (simp_all add: proj_def)

lemma in_proj: "e \<in> set t \<Longrightarrow> x \<in> set (f e) \<Longrightarrow> x \<in> set (proj f t)"
  by (auto simp: proj_def)

lemma trace_syscall: "trace (snd (syscall os c s)) = trace s @ [Sys c (fst (syscall os c s))]"
  by (simp add: syscall_def split_beta)

lemma trace_LOG: "trace (LOG os sev m s) = trace s @ [Log sev m]"
  by (simp add: LOG_def)

lemma trace_PLOG: "trace (PLOG os sev m s) = trace s @ [PLog sev m]"
  by (simp add: PLOG_def)

lemma trace_Validate:
  "trace (snd (ValidateTargetSlotSuffix os x s)) =
     trace s @ [ValidateSuffix x (fst (ValidateTargetSlotSuffix os x s))]"
  by (simp add: ValidateTargetSlotSuffix_def Let_def)

lemma fst_Validate: "fst (ValidateTargetSlotSuffix os x s) = os_ValidateTargetSlotSuffix os x"
  by (simp add: ValidateTargetSlotSuffix_def Let_def)

lemma trace_do_Exec:
  "trace (snd (do_Exec os cmd s)) =
     trace s @ [ExecEv cmd (fst (fst (do_Exec os cmd s))) (snd (fst (do_Exec os cmd s)))]"
  by (simp add: do_Exec_def split_beta)

lemma trace_Activate:
  "trace (snd (ActivateApexPackages os s)) =
     trace s @ [ScanPackagesDirAndActivate (os_kApexPackageSystemDir os),
                GetActivePackages (fst (ActivateApexPackages os s))]"
  by (simp add: ActivateApexPackages_def Let_def)

lemmas trace_simps =
  trace_syscall trace_LOG trace_PLOG trace_Validate trace_do_Exec trace_Activate

text \<open>
  A classifier that ignores the events a function can add sees the same before and
  after it.
\<close>

lemma proj_CloseDescriptor:
  "(\<And>r. f (Sys (Close fd) r) = []) \<Longrightarrow>
   proj f (trace (CloseDescriptor os fd s)) = proj f (trace s)"
  by (simp add: CloseDescriptor_def trace_simps)

lemma proj_CloseDescriptor_str:
  "(\<And>fd r. f (Sys (Close fd) r) = []) \<Longrightarrow>
   proj f (trace (CloseDescriptor_str os x s)) = proj f (trace s)"
  by (simp add: CloseDescriptor_str_def proj_CloseDescriptor split: option.splits)

lemma proj_deactivate_one:
  "(\<And>p st. f (DeactivatePackage p st) = []) \<Longrightarrow> (\<And>m. f (Log ERROR m) = []) \<Longrightarrow>
   proj f (trace (deactivate_one os a s)) = proj f (trace s)"
  by (simp add: deactivate_one_def Let_def split_beta trace_simps)

lemma proj_Deactivate:
  "(\<And>p st. f (DeactivatePackage p st) = []) \<Longrightarrow> (\<And>m. f (Log ERROR m) = []) \<Longrightarrow>
   proj f (trace (DeactivateApexPackages os pkgs s)) = proj f (trace s)"
  by (induction pkgs arbitrary: s) (simp_all add: proj_deactivate_one)

lemma proj_BindMount:
  "(\<And>r. f (Sys (Mount a b None {MS_BIND}) r) = []) \<Longrightarrow> (\<And>m. f (PLog ERROR m) = []) \<Longrightarrow>
   proj f (trace (snd (BindMount os a b False s))) = proj f (trace s)"
  by (simp add: BindMount_def Let_def split_beta trace_simps)

lemma proj_BindMountBionic_libs:
  "(\<And>a b r. f (Sys (Mount a b None {MS_BIND}) r) = []) \<Longrightarrow> (\<And>m. f (PLog ERROR m) = []) \<Longrightarrow>
   proj f (trace (snd (BindMountBionic_libs os ld lm names s))) = proj f (trace s)"
proof (induction names arbitrary: s)
  case Nil
  then show ?case by simp
next
  case (Cons n names)
  have b: "proj f (trace (snd (BindMount os (ld @ n) (lm @ n) False s))) = proj f (trace s)"
    by (rule proj_BindMount) (simp_all add: Cons.prems)
  show ?case
    using Cons.IH [OF Cons.prems, of "snd (BindMount os (ld @ n) (lm @ n) False s)"] b
    by (simp add: Let_def split_beta split: bool.splits)
qed

lemma proj_BindMountBionic:
  "(\<And>p r. f (Sys (Access p) r) = []) \<Longrightarrow>
   (\<And>a b r. f (Sys (Mount a b None {MS_BIND}) r) = []) \<Longrightarrow>
   (\<And>sev m. f (PLog sev m) = []) \<Longrightarrow>
   proj f (trace (snd (BindMountBionic os ls ld lmp lmd s))) = proj f (trace s)"
  by (simp add: BindMountBionic_def split_beta trace_simps proj_BindMount
      proj_BindMountBionic_libs split: bool.splits)

lemma proj_bind_mount_loop:
  "(\<And>a b r. f (Sys (Mount a b None {MS_BIND}) r) = []) \<Longrightarrow> (\<And>m. f (PLog ERROR m) = []) \<Longrightarrow>
   proj f (trace (snd (bind_mount_loop os ds s))) = proj f (trace s)"
  by (induction ds arbitrary: s) (simp_all add: Let_def split_beta trace_simps)

lemmas proj_helpers =
  proj_CloseDescriptor proj_CloseDescriptor_str proj_Deactivate proj_BindMountBionic
  proj_bind_mount_loop



text \<open>The copy loop of the argument vector.\<close>

lemma push_args_eq: "push_args arg n i cmd = cmd @ map (\<lambda>j. arg ! j) [i..<n]"
proof (induction arg n i cmd rule: push_args.induct)
  case (1 arg n i cmd)
  show ?case
  proof (cases "i < n")
    case True
    then show ?thesis
      using "1.IH" [OF True] by (subst push_args.simps) (simp add: upt_conv_Cons)
  next
    case False
    then show ?thesis by (subst push_args.simps) simp
  qed
qed

lemma map_nth_drop: "i \<le> length xs \<Longrightarrow> map (\<lambda>j. xs ! j) [i..<length xs] = drop i xs"
  by (rule nth_equalityI) simp_all

lemma push_args_drop:
  "i \<le> length arg \<Longrightarrow> push_args arg (length arg) i cmd = cmd @ drop i arg"
  by (simp add: push_args_eq map_nth_drop)

lemma launch_or_deact_one:
  "proj launch_or_deact (trace (deactivate_one os a s)) =
     proj launch_or_deact (trace s) @ [Some (GetPath a)]"
  by (simp add: deactivate_one_def Let_def split_beta trace_simps)

lemma launch_or_deact_all:
  "proj launch_or_deact (trace (DeactivateApexPackages os pkgs s)) =
     proj launch_or_deact (trace s) @ map (\<lambda>a. Some (GetPath a)) pkgs"
  by (induction pkgs arbitrary: s) (simp_all add: launch_or_deact_one)

section \<open>Runs in the concrete worlds\<close>

lemma read_5: "istream_read_int ''5'' = Some 5"
  by (simp add: istream_read_int_def isspace_def isdigit_def decimal_def digit_val_def
      INT_MIN_def INT_MAX_def Let_def)

lemmas run_defs =
  main_def otapreopt_chroot_def test_os_def failing_def syscall_def LOG_def PLOG_def
  ValidateTargetSlotSuffix_def CloseDescriptor_def CloseDescriptor_str_def
  ActivateApexPackages_def deactivate_one_def BindMount_def BindMountBionic_def do_Exec_def
  Let_def push_args_eq read_5 argv_ok_def argv_bad_slot_def
  kBindMounts_def kBionicLibFileNames_def STDIN_FILENO_def STDOUT_FILENO_def STDERR_FILENO_def
  kLinkerMountPoint_def kRuntimeLinkerPath_def kBionicLibsMountPointDir_def
  kRuntimeBionicLibsDir_def kLinkerMountPoint64_def kRuntimeLinkerPath64_def
  kBionicLibsMountPointDir64_def kRuntimeBionicLibsDir64_def kPostinstallApexDir_def
  mode_0755_def

section \<open>Deactivation of the activated packages\<close>




section \<open>The launch of the tool\<close>

lemma launches:
  "list_all (\<lambda>(cmd, ok). cmd = ''/system/bin/otapreopt'' # drop 2 argv \<and> 3 \<le> length argv \<and>
       fst (main os argv w) = (if ok then Return 0 else Exit 213))
     (launched (trace (snd (main os argv w)))) \<and>
   (launched (trace (snd (main os argv w))) \<noteq> [] \<longrightarrow>
      length (activated (trace (snd (main os argv w)))) = 1 \<and>
      proj launch_or_deact (trace (snd (main os argv w))) =
        None # map Some (concat (map (map GetPath) (activated (trace (snd (main os argv w)))))))"
  unfolding main_def otapreopt_chroot_def
  by (simp add: Let_def split_beta trace_simps proj_helpers launch_or_deact_all push_args_drop
      split: option.splits)



text \<open>
  Claim C9. In a run that reaches the launch, started with the argument vector \<open>argv\<close>
  (so \<^verbatim>\<open>argc\<close> is its length), the vector handed to \<^verbatim>\<open>Exec\<close> has \<^verbatim>\<open>argc - 1\<close>
  elements: \<^verbatim>\<open>/system/bin/otapreopt\<close> first, then the arguments of \<open>argv\<close> from index 2
  on, unchanged and in their order.
\<close>

theorem C9_argument_vector:
  assumes "ExecEv cmd ok msg \<in> set (trace (snd (main os argv w)))"
  shows "cmd = ''/system/bin/otapreopt'' # drop 2 argv \<and>
         int (length cmd) = int (length argv) - 1 \<and>
         (\<forall>i. 2 \<le> i \<and> i < length argv \<longrightarrow> cmd ! (i - 1) = argv ! i)"
proof -
  let ?t = "trace (snd (main os argv w))"
  from assms have "(cmd, ok) \<in> set (launched ?t)"
    by (rule in_proj) simp
  with launches [of argv os w]
  have c: "cmd = ''/system/bin/otapreopt'' # drop 2 argv" and n: "3 \<le> length argv"
    by (auto simp: list_all_iff)
  from c n have "int (length cmd) = int (length argv) - 1"
    by simp
  moreover have "cmd ! (i - 1) = argv ! i" if "2 \<le> i" and "i < length argv" for i
  proof -
    from that obtain k where k: "i = Suc (Suc k)"
      by (metis Suc_le_D numeral_2_eq_2 Suc_le_mono)
    with that c show ?thesis
      by simp
  qed
  ultimately show ?thesis
    using c by blast
qed

theorem C9_witness:
  "ExecEv [''/system/bin/otapreopt'', ''_b'', ''dexopt'', ''9''] True []
     \<in> set (trace (snd (main os_ok argv_ok ()))) \<and>
   [''/system/bin/otapreopt'', ''_b'', ''dexopt'', ''9''] = ''/system/bin/otapreopt'' # drop 2 argv_ok \<and>
   int (length [''/system/bin/otapreopt'', ''_b'', ''dexopt'', ''9'']) = int (length argv_ok) - 1"
  using C9_argument_vector
    [of "[''/system/bin/otapreopt'', ''_b'', ''dexopt'', ''9'']" True "[]" os_ok argv_ok "()"]
  by (simp add: run_defs os_ok_def)

section \<open>The argument check and the closing of descriptors\<close>

text \<open>
  Claim C8. Started with fewer than three arguments, the process ends with
  \<^verbatim>\<open>exit(208)\<close> and the log line is all it has done: it has made no call at all, so it
  has mounted nothing, closed no descriptor and left its mount namespace as it was.
\<close>

theorem C8_insufficient_arguments:
  assumes "length argv < 3"
  shows "fst (main os argv w) = Exit 208 \<and>
         trace (snd (main os argv w)) = [PLog ERROR ''Not enough arguments.''] \<and>
         proj call_of (trace (snd (main os argv w))) = []"
  using assms by (simp add: main_def otapreopt_chroot_def PLOG_def)

theorem C8_witness:
  "length [''otapreopt_chroot'', ''5''] < 3 \<and>
   fst (main os_ok [''otapreopt_chroot'', ''5''] ()) = Exit 208 \<and>
   trace (snd (main os_ok [''otapreopt_chroot'', ''5''] ())) =
     [PLog ERROR ''Not enough arguments.'']"
  using C8_insufficient_arguments [of "[''otapreopt_chroot'', ''5'']" os_ok "()"]
  by simp

lemma closed_CloseDescriptor:
  "closed (trace (CloseDescriptor os fd s)) = closed (trace s) @ (if 0 \<le> fd then [fd] else [])"
  by (simp add: CloseDescriptor_def trace_simps)

lemma closed_CloseDescriptor_str:
  "closed (trace (CloseDescriptor_str os x s)) =
     closed (trace s) @ (case istream_read_int x of
                           None \<Rightarrow> []
                         | Some fd \<Rightarrow> if 0 \<le> fd then [fd] else [])"
  by (simp add: CloseDescriptor_str_def closed_CloseDescriptor split: option.splits)

lemma closes_then_unshare:
  "3 \<le> length argv \<Longrightarrow>
   closed (trace (snd (main os argv w))) =
     [0, 1, 2] @ (case istream_read_int (argv ! 1) of
                    None \<Rightarrow> []
                  | Some fd \<Rightarrow> if 0 \<le> fd then [fd] else []) \<and>
   length (proj unshare_result (trace (snd (main os argv w)))) = 1"
  unfolding main_def otapreopt_chroot_def
  by (simp add: Let_def split_beta trace_simps proj_helpers
      closed_CloseDescriptor closed_CloseDescriptor_str
      STDIN_FILENO_def STDOUT_FILENO_def STDERR_FILENO_def
      split: option.split)

text \<open>
  Claim C10. \<^verbatim>\<open>CloseDescriptor(const char*)\<close> always returns, and the process goes on
  whatever the string is. When the extraction of an \<^verbatim>\<open>int\<close> from the string fails, or
  gives a negative number, nothing is done: the state is the one before. When it gives
  \<open>fd \<ge> 0\<close>, the one thing done is \<^verbatim>\<open>close(fd)\<close>, once, and its result is kept nowhere
  but in the trace. In the program, the descriptors closed are 0, 1, 2 and then the one
  read from \<^verbatim>\<open>arg[1]\<close>, if any, and \<^verbatim>\<open>unshare\<close> is called next in every case.
\<close>

theorem C10_close_descriptor_string:
  "(istream_read_int str = None \<longrightarrow> CloseDescriptor_str os str s = s) \<and>
   (\<forall>fd. istream_read_int str = Some fd \<and> fd < 0 \<longrightarrow> CloseDescriptor_str os str s = s) \<and>
   (\<forall>fd. istream_read_int str = Some fd \<and> 0 \<le> fd \<longrightarrow>
      CloseDescriptor_str os str s = snd (syscall os (Close fd) s) \<and>
      trace (CloseDescriptor_str os str s) =
        trace s @ [Sys (Close fd) (fst (os_sys os (Close fd) (world s)))]) \<and>
   (3 \<le> length argv \<longrightarrow>
      closed (trace (snd (main os argv w))) =
        [0, 1, 2] @ (case istream_read_int (argv ! 1) of
                       None \<Rightarrow> []
                     | Some fd \<Rightarrow> if 0 \<le> fd then [fd] else []) \<and>
      length (proj unshare_result (trace (snd (main os argv w)))) = 1)"
  using closes_then_unshare [of argv os w]
  by (simp add: CloseDescriptor_str_def CloseDescriptor_def syscall_def split_beta)

lemma read_examples:
  "istream_read_int ''-1'' = Some (- 1)" "istream_read_int ''fd'' = None"
  "istream_read_int '' +12abc'' = Some 12" "istream_read_int ''2147483648'' = None"
  by (simp_all add: istream_read_int_def isspace_def isdigit_def decimal_def digit_val_def
      INT_MIN_def INT_MAX_def Let_def)

theorem C10_witness:
  "istream_read_int ''fd'' = None \<and> CloseDescriptor_str os_ok ''fd'' init = init \<and>
   istream_read_int ''-1'' = Some (- 1) \<and> CloseDescriptor_str os_ok ''-1'' init = init \<and>
   istream_read_int ''5'' = Some 5 \<and>
   trace (CloseDescriptor_str os_ok ''5'' init) = [Sys (Close 5) 0] \<and>
   3 \<le> length argv_ok \<and>
   closed (trace (snd (main os_ok argv_ok ()))) = [0, 1, 2, 5]"
proof -
  have a: "istream_read_int ''fd'' = None \<and> CloseDescriptor_str os_ok ''fd'' init = init"
    using C10_close_descriptor_string [of "''fd''" os_ok init "[]" "()"]
    by (simp add: read_examples)
  have b: "istream_read_int ''-1'' = Some (- 1) \<and> CloseDescriptor_str os_ok ''-1'' init = init"
    using C10_close_descriptor_string [of "''-1''" os_ok init "[]" "()"]
    by (simp add: read_examples)
  have c: "istream_read_int ''5'' = Some 5 \<and>
      trace (CloseDescriptor_str os_ok ''5'' init) = [Sys (Close 5) 0] \<and>
      3 \<le> length argv_ok \<and> closed (trace (snd (main os_ok argv_ok ()))) = [0, 1, 2, 5]"
    using C10_close_descriptor_string [of "''5''" os_ok init argv_ok "()"]
    by (simp add: read_5 os_ok_def test_os_def init_def argv_ok_def CloseDescriptor_str_def
        CloseDescriptor_def syscall_def)
  from a b c show ?thesis by simp
qed

end
